theory Spec2Isabelle
  imports Main "HOL-Library.Char_ord"
begin

section \<open>The host: errors and the file store\<close>

text \<open>
  The program reaches the disk through three calls of Go's \<open>os\<close> package:
  \<open>os.ReadFile\<close>, \<open>os.WriteFile\<close> and \<open>os.Create\<close> (followed by
  \<open>File.WriteString\<close>). They are modelled on a store of named files, a file being its
  bytes and the permission bits it was created with. Two conditions of the host make a
  call fail: the store is read-only (nothing can be opened for writing), or the store is
  full (no byte can be added). Reading fails exactly when the file is missing; access
  rights of other users and concurrent processes are outside the model.
\<close>

datatype errno = ENOENT | EROFS | ENOSPC | EBADF

fun errno_text :: "errno \<Rightarrow> string" where
  "errno_text ENOENT = ''no such file or directory''"
| "errno_text EROFS = ''read-only file system''"
| "errno_text ENOSPC = ''no space left on device''"
| "errno_text EBADF = ''bad file descriptor''"

text \<open>
  Go's \<open>error\<close> values met by the program: a path error of the \<open>os\<close> package
  (operation, path, cause) and the error of executing a template that is not defined.
  \<open>Error\<close> is the method \<open>err.Error()\<close>.
\<close>

datatype error = PathError string string errno | TemplateUndefined string

fun Error :: "error \<Rightarrow> string" where
  "Error (PathError op path e) = op @ '' '' @ path @ '': '' @ errno_text e"
| "Error (TemplateUndefined name) =
     ''html/template: '' @ [CHR 0x22] @ name @ [CHR 0x22] @ '' is undefined''"

record fileobj =
  contents :: string
  mode :: nat

record filesys =
  files :: "string \<rightharpoonup> fileobj"
  readonly :: bool
  full :: bool

text \<open>An open file is named by its path: the program keeps no handle beyond one call.\<close>

type_synonym File = string

text \<open>
  \<open>os.OpenFile(name, O_WRONLY|O_CREATE|O_TRUNC, perm)\<close>: a missing file is created
  empty with mode \<open>perm\<close>; an existing one is emptied and keeps its mode.
\<close>

definition os_OpenFile :: "string \<Rightarrow> nat \<Rightarrow> filesys \<Rightarrow> (error + File) \<times> filesys" where
  "os_OpenFile name perm fs =
     (if readonly fs then (Inl (PathError ''open'' name EROFS), fs)
      else (Inr name,
            fs\<lparr>files := (files fs)(name \<mapsto>
                  (case files fs name of
                     None \<Rightarrow> \<lparr>contents = [], mode = perm\<rparr>
                   | Some f \<Rightarrow> f\<lparr>contents := []\<rparr>))\<rparr>))"

text \<open>\<open>f.Write(data)\<close>: the bytes are added at the end of the open file.\<close>

definition File_Write :: "File \<Rightarrow> string \<Rightarrow> filesys \<Rightarrow> error option \<times> filesys" where
  "File_Write out data fs =
     (case files fs out of
        None \<Rightarrow> (Some (PathError ''write'' out EBADF), fs)
      | Some f \<Rightarrow>
          if data \<noteq> [] \<and> full fs then (Some (PathError ''write'' out ENOSPC), fs)
          else (None, fs\<lparr>files := (files fs)(out \<mapsto> f\<lparr>contents := contents f @ data\<rparr>)\<rparr>))"

definition File_WriteString :: "File \<Rightarrow> string \<Rightarrow> filesys \<Rightarrow> error option \<times> filesys" where
  "File_WriteString out s fs = File_Write out s fs"

definition os_WriteFile :: "string \<Rightarrow> string \<Rightarrow> nat \<Rightarrow> filesys \<Rightarrow> error option \<times> filesys" where
  "os_WriteFile name data perm fs =
     (case os_OpenFile name perm fs of
        (Inl err, fs') \<Rightarrow> (Some err, fs')
      | (Inr f, fs') \<Rightarrow> File_Write f data fs')"

definition os_ReadFile :: "string \<Rightarrow> filesys \<Rightarrow> error + string" where
  "os_ReadFile name fs =
     (case files fs name of
        None \<Rightarrow> Inl (PathError ''open'' name ENOENT)
      | Some f \<Rightarrow> Inr (contents f))"

text \<open>\<open>os.Create(name)\<close> is \<open>OpenFile(name, O_RDWR|O_CREATE|O_TRUNC, 0666)\<close>.\<close>

definition mode_0666 :: nat where
  "mode_0666 = 6 * 64 + 6 * 8 + 6"

definition os_Create :: "string \<Rightarrow> filesys \<Rightarrow> (error + File) \<times> filesys" where
  "os_Create name fs = os_OpenFile name mode_0666 fs"

section \<open>The page store\<close>

record Page =
  Title :: string
  Body :: string

text \<open>The octal literal \<open>0600\<close> of \<open>Page.save\<close>: read and write for the owner only.\<close>

definition mode_0600 :: nat where
  "mode_0600 = 6 * 64 + 0 * 8 + 0"

definition save :: "Page \<Rightarrow> filesys \<Rightarrow> error option \<times> filesys" where
  "save p fs = (let filename = Title p @ ''.txt'' in os_WriteFile filename (Body p) mode_0600 fs)"

definition loadPage :: "string \<Rightarrow> filesys \<Rightarrow> error + Page" where
  "loadPage title fs =
     (let filename = title @ ''.txt'' in
      case os_ReadFile filename fs of
        Inl err \<Rightarrow> Inl err
      | Inr body \<Rightarrow> Inr \<lparr>Title = title, Body = body\<rparr>)"

section \<open>The router\<close>

text \<open>
  \<open>validPath\<close> is compiled from the pattern \<open>^/(edit|save|view)/([a-zA-Z0-9]+)$\<close>.
  The pattern is kept as a term and given its language; the anchors \<open>^\<close> and \<open>$\<close>
  make a match cover the whole path, so a path matches when it is a word of that
  language.
\<close>

datatype rexp =
    Lit string
  | Range char char
  | Or rexp rexp
  | Cat rexp rexp
  | Plus rexp
  | Group rexp

fun lang :: "rexp \<Rightarrow> string set" where
  "lang (Lit s) = {s}"
| "lang (Range a b) = {[c] |c. a \<le> c \<and> c \<le> b}"
| "lang (Or r s) = lang r \<union> lang s"
| "lang (Cat r s) = {u @ v |u v. u \<in> lang r \<and> v \<in> lang s}"
| "lang (Plus r) = {concat ws |ws. ws \<noteq> [] \<and> set ws \<subseteq> lang r}"
| "lang (Group r) = lang r"

definition alnum_class :: rexp where
  "alnum_class =
     Or (Range CHR ''a'' CHR ''z'') (Or (Range CHR ''A'' CHR ''Z'') (Range CHR ''0'' CHR ''9''))"

definition validPath :: rexp where
  "validPath =
     Cat (Lit ''/'')
       (Cat (Group (Or (Lit ''edit'') (Or (Lit ''save'') (Lit ''view''))))
          (Cat (Lit ''/'') (Group (Plus alnum_class))))"

text \<open>
  The pattern as the specification writes it, \<open>^/(view|edit|save)/([a-zA-Z0-9]+)$\<close>:
  the same alternatives in another order.
\<close>

definition spec_pattern :: rexp where
  "spec_pattern =
     Cat (Lit ''/'')
       (Cat (Group (Or (Lit ''view'') (Or (Lit ''edit'') (Lit ''save''))))
          (Cat (Lit ''/'') (Group (Plus alnum_class))))"

definition alnum :: "char \<Rightarrow> bool" where
  "alnum c \<longleftrightarrow>
     (CHR ''a'' \<le> c \<and> c \<le> CHR ''z'') \<or> (CHR ''A'' \<le> c \<and> c \<le> CHR ''Z'') \<or>
     (CHR ''0'' \<le> c \<and> c \<le> CHR ''9'')"

text \<open>The three actions of the pattern.\<close>

definition actions :: "string set" where
  "actions = {''edit'', ''save'', ''view''}"

text \<open>A title as the router lets it through: one or more letters and digits.\<close>

definition valid_title :: "string \<Rightarrow> bool" where
  "valid_title t \<longleftrightarrow> t \<noteq> [] \<and> list_all alnum t"

fun strip_prefix :: "string \<Rightarrow> string \<Rightarrow> string option" where
  "strip_prefix [] s = Some s"
| "strip_prefix (c # cs) [] = None"
| "strip_prefix (c # cs) (d # ds) = (if c = d then strip_prefix cs ds else None)"

text \<open>
  \<open>validPath.FindStringSubmatch(path)\<close>: \<open>None\<close> is Go's \<open>nil\<close>; a match is the
  slice of the whole match, the action and the title (\<open>m[0]\<close>, \<open>m[1]\<close>, \<open>m[2]\<close>).
  The alternatives are tried in the order of the pattern.
\<close>

definition match_action :: "string \<Rightarrow> string \<Rightarrow> string list option" where
  "match_action v path =
     (case strip_prefix (''/'' @ v @ ''/'') path of
        None \<Rightarrow> None
      | Some title \<Rightarrow> if title \<noteq> [] \<and> list_all alnum title then Some [path, v, title] else None)"

definition FindStringSubmatch :: "string \<Rightarrow> string list option" where
  "FindStringSubmatch path =
     (case match_action ''edit'' path of
        Some m \<Rightarrow> Some m
      | None \<Rightarrow>
          (case match_action ''save'' path of
             Some m \<Rightarrow> Some m
           | None \<Rightarrow> match_action ''view'' path))"

section \<open>Requests and responses\<close>

text \<open>
  Of a request the handlers read the path (\<open>r.URL.Path\<close>) and the parsed form
  (\<open>r.Form\<close>, a map from a key to its values). \<open>FormValue\<close> is the first value of
  the key, and the empty string when the key has none.
\<close>

record request =
  URL_Path :: string
  Form :: "string \<rightharpoonup> string list"

definition FormValue :: "request \<Rightarrow> string \<Rightarrow> string" where
  "FormValue r key = (case Form r key of Some (v # vs) \<Rightarrow> v | _ \<Rightarrow> [])"

definition StatusOK :: nat where "StatusOK = 200"
definition StatusFound :: nat where "StatusFound = 302"
definition StatusNotFound :: nat where "StatusNotFound = 404"
definition StatusInternalServerError :: nat where "StatusInternalServerError = 500"

text \<open>
  What a handler does to its \<open>http.ResponseWriter\<close>: one of \<open>http.Redirect\<close> (target
  and status), \<open>http.Error\<close> (message and status), or the output a template wrote
  (status 200, since nothing set another). The target and the message are the arguments
  of the call. \<open>http.Redirect\<close> sends an absolute path of plain segments unchanged in
  the \<open>Location\<close> header, and every target of this program is one when the title is
  of letters and digits; \<open>http.Error\<close> sends the message as the body.
\<close>

datatype response =
    http_Redirect string nat
  | http_Error string nat
  | Written string

definition http_NotFound :: response where
  "http_NotFound = http_Error ''404 page not found'' StatusNotFound"

fun StatusCode :: "response \<Rightarrow> nat" where
  "StatusCode (http_Redirect url code) = code"
| "StatusCode (http_Error msg code) = code"
| "StatusCode (Written html) = StatusOK"

fun Location :: "response \<Rightarrow> string option" where
  "Location (http_Redirect url code) = Some url"
| "Location (http_Error msg code) = None"
| "Location (Written html) = None"

section \<open>Templates\<close>

text \<open>
  The two template texts of the source. \<open>html/template\<close> parses a text into literal
  pieces and actions, and gives every action the escaping of the place it stands in:
  element content, the content of a \<open>textarea\<close> (RCDATA), or a URL inside a quoted
  attribute. The parsed forms are written out below; \<open>template_source\<close> prints a parsed
  template back, and equals the source text for both.
\<close>

definition edit_html :: string where
  \<open>edit_html =
''
<h1>Editing {{.Title}}</h1>

<form action="/save/{{.Title}}" method="POST">
<div><textarea name="body" rows="20" cols="80">{{printf "%s" .Body}}</textarea></div>
<div><input type="submit" value="Save"></div>
</form>''\<close>

definition view_html :: string where
  \<open>view_html =
''
'' @ [CHR 0x09] @ ''<h1>{{.Title}}</h1>
<p>[<a href="/edit/{{.Title}}">edit</a>]</p>
<div>{{printf "%s" .Body}}</div>
''\<close>

datatype pipeline = Dot_Title | Printf_s_Dot_Body

datatype escaping = HTMLText | RCDATA | URLAttr

datatype node = TextNode string | ActionNode pipeline escaping

type_synonym template = "node list"

fun pipeline_source :: "pipeline \<Rightarrow> string" where
  \<open>pipeline_source Dot_Title = ''.Title''\<close>
| \<open>pipeline_source Printf_s_Dot_Body = ''printf "%s" .Body''\<close>

fun node_source :: "node \<Rightarrow> string" where
  "node_source (TextNode s) = s"
| "node_source (ActionNode pl esc) = ''{{'' @ pipeline_source pl @ ''}}''"

definition template_source :: "template \<Rightarrow> string" where
  "template_source t = concat (map node_source t)"

definition edit_template :: template where
  \<open>edit_template =
    [TextNode ''
<h1>Editing '',
     ActionNode Dot_Title HTMLText,
     TextNode ''</h1>

<form action="/save/'',
     ActionNode Dot_Title URLAttr,
     TextNode ''" method="POST">
<div><textarea name="body" rows="20" cols="80">'',
     ActionNode Printf_s_Dot_Body RCDATA,
     TextNode ''</textarea></div>
<div><input type="submit" value="Save"></div>
</form>'']\<close>

definition view_template :: template where
  \<open>view_template =
    [TextNode (''
'' @ [CHR 0x09] @ ''<h1>''),
     ActionNode Dot_Title HTMLText,
     TextNode ''</h1>
<p>[<a href="/edit/'',
     ActionNode Dot_Title URLAttr,
     TextNode ''">edit</a>]</p>
<div>'',
     ActionNode Printf_s_Dot_Body HTMLText,
     TextNode ''</div>
'']\<close>

subsection \<open>The escapers of \<open>html/template\<close>\<close>

text \<open>
  The replacement table of the HTML escaper: the NUL byte becomes U+FFFD (three bytes in
  UTF-8), and the quotes, the ampersand, the plus sign and the angle brackets become
  character references. Every other byte is copied.
\<close>

definition html_replacement :: "char \<Rightarrow> string" where
  \<open>html_replacement c =
     (if c = CHR 0x00 then [CHR 0xEF, CHR 0xBF, CHR 0xBD]
      else if c = CHR 0x22 then ''&#34;''
      else if c = CHR ''&'' then ''&amp;''
      else if c = CHR 0x27 then ''&#39;''
      else if c = CHR ''+'' then ''&#43;''
      else if c = CHR ''<'' then ''&lt;''
      else if c = CHR ''>'' then ''&gt;''
      else [c])\<close>

definition htmlEscaper :: "string \<Rightarrow> string" where
  "htmlEscaper s = concat (map html_replacement s)"

text \<open>On a plain string the RCDATA and the attribute escaper use the same table.\<close>

definition rcdataEscaper :: "string \<Rightarrow> string" where
  "rcdataEscaper s = htmlEscaper s"

definition attrEscaper :: "string \<Rightarrow> string" where
  "attrEscaper s = htmlEscaper s"

definition isHex :: "char \<Rightarrow> bool" where
  "isHex c \<longleftrightarrow>
     (CHR ''0'' \<le> c \<and> c \<le> CHR ''9'') \<or> (CHR ''a'' \<le> c \<and> c \<le> CHR ''f'') \<or>
     (CHR ''A'' \<le> c \<and> c \<le> CHR ''F'')"

definition hex_digit :: "nat \<Rightarrow> char" where
  "hex_digit n = ''0123456789abcdef'' ! (n mod 16)"

definition percent_encode :: "char \<Rightarrow> string" where
  "percent_encode c = [CHR ''%'', hex_digit (of_char c div 16), hex_digit (of_char c mod 16)]"

text \<open>
  The URL normaliser walks the bytes: reserved and unreserved characters of a URL and a
  percent sign that starts a valid escape stay; every other byte is percent-encoded.
\<close>

fun urlNormalizer :: "string \<Rightarrow> string" where
  "urlNormalizer [] = []"
| "urlNormalizer (c # cs) =
     (if c \<in> set ''!#$&*+,/:;=?@[]'' then [c]
      else if c \<in> set ''-._~'' then [c]
      else if c = CHR ''%'' \<and> (case cs of h1 # h2 # _ \<Rightarrow> isHex h1 \<and> isHex h2 | _ \<Rightarrow> False) then [c]
      else if alnum c then [c]
      else percent_encode c) @ urlNormalizer cs"

fun escape :: "escaping \<Rightarrow> string \<Rightarrow> string" where
  "escape HTMLText s = htmlEscaper s"
| "escape RCDATA s = rcdataEscaper s"
| "escape URLAttr s = attrEscaper (urlNormalizer s)"

subsection \<open>Reading escaped text back\<close>






subsection \<open>Executing a template on a page\<close>

fun eval_pipeline :: "pipeline \<Rightarrow> Page \<Rightarrow> string" where
  "eval_pipeline Dot_Title p = Title p"
| "eval_pipeline Printf_s_Dot_Body p = Body p"

fun exec_node :: "Page \<Rightarrow> node \<Rightarrow> string" where
  "exec_node p (TextNode s) = s"
| "exec_node p (ActionNode pl esc) = escape esc (eval_pipeline pl p)"

definition Execute :: "template \<Rightarrow> Page \<Rightarrow> string" where
  "Execute t p = concat (map (exec_node p) t)"

text \<open>
  The variable \<open>templates\<close> is set once, when the program starts, from the files
  \<open>edit.html\<close> and \<open>view.html\<close>, each template being named after its file. The handlers
  take it as a parameter. \<open>builtin_templates\<close> is its value when the files hold the two
  texts of the source.
\<close>

type_synonym templates = "string \<rightharpoonup> template"

definition builtin_templates :: templates where
  "builtin_templates = [''edit.html'' \<mapsto> edit_template, ''view.html'' \<mapsto> view_template]"

definition ExecuteTemplate :: "templates \<Rightarrow> string \<Rightarrow> Page \<Rightarrow> error + string" where
  "ExecuteTemplate ts name p =
     (case ts name of
        None \<Rightarrow> Inl (TemplateUndefined name)
      | Some t \<Rightarrow> Inr (Execute t p))"

section \<open>The handlers\<close>

definition renderTemplate :: "templates \<Rightarrow> string \<Rightarrow> Page \<Rightarrow> response" where
  "renderTemplate ts tmpl p =
     (case ExecuteTemplate ts (tmpl @ ''.html'') p of
        Inl err \<Rightarrow> http_Error (Error err) StatusInternalServerError
      | Inr html \<Rightarrow> Written html)"

text \<open>
  A handler gets the request and the title, reads or changes the file store, and leaves
  a response. The response writer of the source is the returned response; the store is
  passed through.
\<close>

type_synonym handler = "request \<Rightarrow> string \<Rightarrow> filesys \<Rightarrow> response \<times> filesys"

definition viewHandler :: "templates \<Rightarrow> handler" where
  "viewHandler ts r title fs =
     (case loadPage title fs of
        Inl err \<Rightarrow> (http_Redirect (''/edit/'' @ title) StatusFound, fs)
      | Inr p \<Rightarrow> (renderTemplate ts ''view'' p, fs))"


definition saveHandler :: handler where
  "saveHandler r title fs =
     (let body = FormValue r ''body'';
          p = \<lparr>Title = title, Body = body\<rparr>
      in case save p fs of
           (Some err, fs') \<Rightarrow> (http_Error (Error err) StatusInternalServerError, fs')
         | (None, fs') \<Rightarrow> (http_Redirect (''/view/'' @ title) StatusFound, fs'))"

definition makeHandler :: "handler \<Rightarrow> request \<Rightarrow> filesys \<Rightarrow> response \<times> filesys" where
  "makeHandler fn r fs =
     (case FindStringSubmatch (URL_Path r) of
        None \<Rightarrow> (http_NotFound, fs)
      | Some m \<Rightarrow> fn r (m ! 2) fs)"

section \<open>Writing the template files when the program starts\<close>

definition makeFile :: "string \<Rightarrow> string \<Rightarrow> filesys \<Rightarrow> filesys" where
  "makeFile name content fs =
     (case os_Create name fs of
        (Inl err, fs') \<Rightarrow> fs'
      | (Inr out, fs') \<Rightarrow> snd (File_WriteString out content fs'))"


section \<open>Concrete states used in the examples\<close>

definition empty_disk :: filesys where
  "empty_disk = \<lparr>files = Map.empty, readonly = False, full = False\<rparr>"

definition readonly_disk :: filesys where
  "readonly_disk = \<lparr>files = Map.empty, readonly = True, full = False\<rparr>"


definition disk_with_page :: filesys where
  "disk_with_page =
     \<lparr>files = [''TestPage.txt'' \<mapsto> \<lparr>contents = ''hello=world'', mode = mode_0600\<rparr>],
      readonly = False, full = False\<rparr>"


definition save_request :: request where
  "save_request = \<lparr>URL_Path = ''/save/TestPage'', Form = [''body'' \<mapsto> [''hello=world'']]\<rparr>"


section \<open>Properties of the page store\<close>

lemma os_WriteFile_ok:
  assumes "os_WriteFile name data perm fs = (None, fs')"
  shows "fs' = fs\<lparr>files := (files fs)(name \<mapsto>
            (case files fs name of
               None \<Rightarrow> \<lparr>contents = data, mode = perm\<rparr>
             | Some f \<Rightarrow> f\<lparr>contents := data\<rparr>))\<rparr>"
  using assms
  by (auto simp: os_WriteFile_def os_OpenFile_def File_Write_def split: if_splits option.splits)

lemma os_WriteFile_ok_iff:
  "fst (os_WriteFile name data perm fs) = None \<longleftrightarrow> \<not> readonly fs \<and> (data = [] \<or> \<not> full fs)"
  by (auto simp: os_WriteFile_def os_OpenFile_def File_Write_def)

lemma save_ok_iff:
  "fst (save p fs) = None \<longleftrightarrow> \<not> readonly fs \<and> (Body p = [] \<or> \<not> full fs)"
  by (simp add: save_def os_WriteFile_ok_iff)

lemma save_keeps_mode:
  assumes "save p fs = (None, fs')" and "files fs (Title p @ ''.txt'') = Some g"
  shows "files fs' (Title p @ ''.txt'') = Some (g\<lparr>contents := Body p\<rparr>)"
  using assms by (auto simp: save_def dest!: os_WriteFile_ok)

lemma save_then_load:
  assumes "save p fs = (None, fs')"
  shows "loadPage (Title p) fs' = Inr p"
proof -
  from assms have "os_WriteFile (Title p @ ''.txt'') (Body p) mode_0600 fs = (None, fs')"
    by (simp add: save_def)
  then have "\<exists>f. files fs' (Title p @ ''.txt'') = Some f \<and> contents f = Body p"
    by (auto dest!: os_WriteFile_ok split: option.splits)
  then show ?thesis
    by (auto simp: loadPage_def os_ReadFile_def)
qed


lemma loadPage_Inl_iff:
  "loadPage title fs = Inl err \<longleftrightarrow>
     files fs (title @ ''.txt'') = None \<and> err = PathError ''open'' (title @ ''.txt'') ENOENT"
  by (auto simp: loadPage_def os_ReadFile_def Let_def split: option.splits)

text \<open>
  Claim C1. For a title of letters and digits and any body: when \<open>save\<close> of the page
  has succeeded, \<open>loadPage\<close> of the title on the resulting store succeeds and returns
  the page with that title and exactly that body.
\<close>

theorem save_load_roundtrip:
  assumes "valid_title t" and "save \<lparr>Title = t, Body = b\<rparr> fs = (None, fs')"
  shows "loadPage t fs' = Inr \<lparr>Title = t, Body = b\<rparr>"
  using save_then_load [OF assms(2)] by simp

theorem save_load_roundtrip_witness:
  "valid_title ''TestPage'' \<and>
   fst (save \<lparr>Title = ''TestPage'', Body = ''hello=world''\<rparr> empty_disk) = None \<and>
   loadPage ''TestPage'' (snd (save \<lparr>Title = ''TestPage'', Body = ''hello=world''\<rparr> empty_disk))
     = Inr \<lparr>Title = ''TestPage'', Body = ''hello=world''\<rparr>"
proof -
  have t: "valid_title ''TestPage''"
    by (simp add: valid_title_def alnum_def)
  have ok: "fst (save \<lparr>Title = ''TestPage'', Body = ''hello=world''\<rparr> empty_disk) = None"
    by (simp add: save_ok_iff empty_disk_def)
  then have s: "save \<lparr>Title = ''TestPage'', Body = ''hello=world''\<rparr> empty_disk =
      (None, snd (save \<lparr>Title = ''TestPage'', Body = ''hello=world''\<rparr> empty_disk))"
    by (simp add: prod_eq_iff)
  show ?thesis
    using t ok save_load_roundtrip [OF t s] by simp
qed



section \<open>Properties of the router\<close>

lemma strip_prefix_iff: "strip_prefix pre s = Some rest \<longleftrightarrow> s = pre @ rest"
  by (induction pre s rule: strip_prefix.induct) auto

lemma strip_prefix_append [simp]: "strip_prefix pre (pre @ rest) = Some rest"
  by (simp add: strip_prefix_iff)

lemma strip_prefix_None_iff: "strip_prefix pre s = None \<longleftrightarrow> (\<forall>rest. s \<noteq> pre @ rest)"
  using strip_prefix_iff [of pre s] by (cases "strip_prefix pre s") auto

lemma lang_alnum_class: "lang alnum_class = {[c] |c. alnum c}"
  by (auto simp: alnum_class_def alnum_def)

lemma concat_singletons:
  assumes "\<forall>w\<in>set ws. \<exists>c. w = [c] \<and> P c"
  shows "list_all P (concat ws) \<and> (ws \<noteq> [] \<longrightarrow> concat ws \<noteq> [])"
  using assms by (induction ws) auto

lemma lang_Plus_alnum: "lang (Plus alnum_class) = {t. valid_title t}"
proof (intro set_eqI iffI)
  fix t assume "t \<in> lang (Plus alnum_class)"
  then obtain ws where ws: "t = concat ws" "ws \<noteq> []" "set ws \<subseteq> {[c] |c. alnum c}"
    by (auto simp: lang_alnum_class)
  then have "\<forall>w\<in>set ws. \<exists>c. w = [c] \<and> alnum c" by auto
  from concat_singletons [OF this] ws show "t \<in> {t. valid_title t}"
    by (simp add: valid_title_def)
next
  fix t assume "t \<in> {t. valid_title t}"
  then have t: "t \<noteq> []" "list_all alnum t" by (simp_all add: valid_title_def)
  have "t = concat (map (\<lambda>c. [c]) t)" by (induction t) auto
  moreover have "map (\<lambda>c. [c]) t \<noteq> []" using t by simp
  moreover have "set (map (\<lambda>c. [c]) t) \<subseteq> {[c] |c. alnum c}"
    using t by (auto simp: list_all_iff)
  ultimately show "t \<in> lang (Plus alnum_class)"
    unfolding lang.simps lang_alnum_class by blast
qed

lemma lang_Cat_Lit: "lang (Cat (Lit s) r) = {s @ v |v. v \<in> lang r}"
  by auto

lemma lang_route:
  "lang (Cat (Lit ''/'') (Cat (Group (Or (Lit a) (Or (Lit b) (Lit c))))
      (Cat (Lit ''/'') (Group (Plus alnum_class))))) =
   {''/'' @ v @ ''/'' @ t |v t. v \<in> {a, b, c} \<and> valid_title t}"
proof -
  have title: "lang (Group (Plus alnum_class)) = {t. valid_title t}"
    by (simp only: lang.simps(6) lang_Plus_alnum)
  have tail: "lang (Cat (Lit ''/'') (Group (Plus alnum_class))) = {''/'' @ t |t. valid_title t}"
    unfolding lang_Cat_Lit title by simp
  have verbs: "lang (Group (Or (Lit a) (Or (Lit b) (Lit c)))) = {a, b, c}"
    by auto
  have "lang (Cat (Group (Or (Lit a) (Or (Lit b) (Lit c)))) (Cat (Lit ''/'') (Group (Plus alnum_class))))
      = {u @ v |u v. u \<in> lang (Group (Or (Lit a) (Or (Lit b) (Lit c)))) \<and>
                     v \<in> lang (Cat (Lit ''/'') (Group (Plus alnum_class)))}"
    by (rule lang.simps(4))
  also have "\<dots> = {v @ ''/'' @ t |v t. v \<in> {a, b, c} \<and> valid_title t}"
    unfolding verbs tail by blast
  finally have mid: "lang (Cat (Group (Or (Lit a) (Or (Lit b) (Lit c)))) (Cat (Lit ''/'') (Group (Plus alnum_class))))
      = {v @ ''/'' @ t |v t. v \<in> {a, b, c} \<and> valid_title t}" .
  show ?thesis
    unfolding lang_Cat_Lit mid by blast
qed

lemma lang_validPath:
  "lang validPath = {''/'' @ a @ ''/'' @ t |a t. a \<in> actions \<and> valid_title t}"
  unfolding validPath_def actions_def by (rule lang_route)

lemma lang_spec_pattern: "lang spec_pattern = lang validPath"
proof -
  have "{''view'', ''edit'', ''save''} = {''edit'', ''save'', ''view''}"
    by (rule set_eqI) (simp only: insert_iff empty_iff, blast)
  then show ?thesis
    unfolding validPath_def spec_pattern_def lang_route by (rule arg_cong [where f = "\<lambda>A. {''/'' @ v @ ''/'' @ t |v t. v \<in> A \<and> valid_title t}"])
qed

lemma match_action_iff:
  "match_action a path = Some m \<longleftrightarrow>
     (\<exists>t. path = ''/'' @ a @ ''/'' @ t \<and> valid_title t \<and> m = [path, a, t])"
proof -
  define P where "P = ''/'' @ a @ ''/''"
  have key: "(path = ''/'' @ a @ ''/'' @ t) = (strip_prefix P path = Some t)" for t
    unfolding P_def strip_prefix_iff by simp
  have "match_action a path =
      (case strip_prefix P path of
         None \<Rightarrow> None
       | Some title \<Rightarrow> if valid_title title then Some [path, a, title] else None)"
    unfolding match_action_def P_def valid_title_def by simp
  then show ?thesis
    unfolding key by (cases "strip_prefix P path") auto
qed

lemma match_action_exclusive:
  assumes "match_action a path = Some m" and "match_action b path = Some m'"
    and "a \<in> actions" and "b \<in> actions"
  shows "a = b"
proof -
  from assms(1) obtain t where t: "path = ''/'' @ a @ ''/'' @ t"
    unfolding match_action_iff by blast
  from assms(2) obtain u where u: "path = ''/'' @ b @ ''/'' @ u"
    unfolding match_action_iff by blast
  from t u have "a @ ''/'' @ t = b @ ''/'' @ u" by simp
  moreover have "length a = 4" "length b = 4"
    using assms(3,4) by (auto simp: actions_def)
  ultimately show ?thesis by (simp add: append_eq_append_conv)
qed

lemma FindStringSubmatch_iff:
  "FindStringSubmatch path = Some m \<longleftrightarrow>
     (\<exists>a t. a \<in> actions \<and> valid_title t \<and> path = ''/'' @ a @ ''/'' @ t \<and> m = [path, a, t])"
proof
  assume "FindStringSubmatch path = Some m"
  then have "\<exists>a \<in> actions. match_action a path = Some m"
    unfolding FindStringSubmatch_def actions_def by (auto split: option.splits)
  then show "\<exists>a t. a \<in> actions \<and> valid_title t \<and> path = ''/'' @ a @ ''/'' @ t \<and> m = [path, a, t]"
    unfolding match_action_iff by blast
next
  assume "\<exists>a t. a \<in> actions \<and> valid_title t \<and> path = ''/'' @ a @ ''/'' @ t \<and> m = [path, a, t]"
  then obtain a where a: "a \<in> actions" "match_action a path = Some m"
    unfolding match_action_iff by blast
  have e: "''edit'' \<in> actions" and s: "''save'' \<in> actions" and v: "''view'' \<in> actions"
    by (simp_all add: actions_def)
  have other: "match_action b path = None \<or> b = a" if "b \<in> actions" for b
    using match_action_exclusive [OF _ a(2) that a(1)] by (cases "match_action b path") auto
  from a(1) consider "a = ''edit''" | "a = ''save''" | "a = ''view''"
    unfolding actions_def by blast
  then show "FindStringSubmatch path = Some m"
  proof cases
    case 1
    with a(2) show ?thesis by (simp add: FindStringSubmatch_def)
  next
    case 2
    with other [OF e] have "match_action ''edit'' path = None" by auto
    with 2 a(2) show ?thesis by (simp add: FindStringSubmatch_def)
  next
    case 3
    with other [OF e] other [OF s]
    have "match_action ''edit'' path = None" "match_action ''save'' path = None" by auto
    with 3 a(2) show ?thesis by (simp add: FindStringSubmatch_def)
  qed
qed

lemma FindStringSubmatch_None_iff:
  "FindStringSubmatch path = None \<longleftrightarrow> path \<notin> lang validPath"
proof -
  have "path \<in> lang validPath \<longleftrightarrow> (\<exists>m. FindStringSubmatch path = Some m)"
    unfolding FindStringSubmatch_iff lang_validPath by blast
  then show ?thesis by auto
qed

text \<open>
  Claim C2. A path that is no word of the pattern \<open>^/(view|edit|save)/([a-zA-Z0-9]+)$\<close>
  finds no match; the wrapped handler then answers \<open>404\<close> whatever the handler
  \<open>fn\<close> is, so nothing of \<open>fn\<close> runs, and the store is as before. A path that is a
  word of the pattern is an action, a slash and a title of letters and digits, and
  \<open>fn\<close> is called with that title.
\<close>

theorem makeHandler_routes:
  "(URL_Path r \<notin> lang spec_pattern \<longrightarrow>
      FindStringSubmatch (URL_Path r) = None \<and>
      makeHandler fn r fs = (http_NotFound, fs) \<and>
      StatusCode (fst (makeHandler fn r fs)) = 404) \<and>
   (URL_Path r \<in> lang spec_pattern \<longrightarrow>
      (\<exists>a title. a \<in> actions \<and> valid_title title \<and>
         URL_Path r = ''/'' @ a @ ''/'' @ title \<and>
         FindStringSubmatch (URL_Path r) = Some [URL_Path r, a, title] \<and>
         makeHandler fn r fs = fn r title fs))"
proof (intro conjI impI)
  assume "URL_Path r \<notin> lang spec_pattern"
  then show none: "FindStringSubmatch (URL_Path r) = None"
    by (simp add: lang_spec_pattern FindStringSubmatch_None_iff)
  then show nf: "makeHandler fn r fs = (http_NotFound, fs)"
    by (simp add: makeHandler_def)
  then show "StatusCode (fst (makeHandler fn r fs)) = 404"
    by (simp add: http_NotFound_def StatusNotFound_def)
next
  assume "URL_Path r \<in> lang spec_pattern"
  then obtain a t where at: "a \<in> actions" "valid_title t" "URL_Path r = ''/'' @ a @ ''/'' @ t"
    unfolding lang_spec_pattern lang_validPath by blast
  then have m: "FindStringSubmatch (URL_Path r) = Some [URL_Path r, a, t]"
    unfolding FindStringSubmatch_iff by blast
  then have "makeHandler fn r fs = fn r t fs"
    by (simp add: makeHandler_def)
  with at m show "\<exists>a title. a \<in> actions \<and> valid_title title \<and>
         URL_Path r = ''/'' @ a @ ''/'' @ title \<and>
         FindStringSubmatch (URL_Path r) = Some [URL_Path r, a, title] \<and>
         makeHandler fn r fs = fn r title fs"
    by blast
qed

lemma FindStringSubmatch_examples:
  "FindStringSubmatch ''/nonexistent/../../etc/passwd'' = None"
  "FindStringSubmatch ''/view/'' = None"
  "FindStringSubmatch ''/view/a.b'' = None"
  "FindStringSubmatch ''/view/a/b'' = None"
  "FindStringSubmatch ''/view/TestPage'' = Some [''/view/TestPage'', ''view'', ''TestPage'']"
  by (simp_all add: FindStringSubmatch_def match_action_def alnum_def)

theorem makeHandler_routes_witness:
  "''/nonexistent/../../etc/passwd'' \<notin> lang spec_pattern \<and>
   makeHandler saveHandler \<lparr>URL_Path = ''/nonexistent/../../etc/passwd'', Form = Map.empty\<rparr> empty_disk
     = (http_NotFound, empty_disk) \<and>
   ''/view/TestPage'' \<in> lang spec_pattern \<and>
   makeHandler (viewHandler builtin_templates) \<lparr>URL_Path = ''/view/TestPage'', Form = Map.empty\<rparr> empty_disk
     = viewHandler builtin_templates \<lparr>URL_Path = ''/view/TestPage'', Form = Map.empty\<rparr> ''TestPage'' empty_disk"
proof -
  let ?bad = "\<lparr>URL_Path = ''/nonexistent/../../etc/passwd'', Form = Map.empty\<rparr>"
  let ?good = "\<lparr>URL_Path = ''/view/TestPage'', Form = Map.empty\<rparr>"
  have bad: "URL_Path ?bad \<notin> lang spec_pattern"
    using FindStringSubmatch_examples(1) by (simp add: lang_spec_pattern FindStringSubmatch_None_iff)
  have good: "URL_Path ?good \<in> lang spec_pattern"
    using FindStringSubmatch_examples(5) FindStringSubmatch_None_iff [of "''/view/TestPage''"]
    by (simp add: lang_spec_pattern)
  from bad makeHandler_routes [of ?bad saveHandler empty_disk]
  have 1: "makeHandler saveHandler ?bad empty_disk = (http_NotFound, empty_disk)"
    by blast
  from good makeHandler_routes [of ?good "viewHandler builtin_templates" empty_disk]
  obtain a title where
    "FindStringSubmatch (URL_Path ?good) = Some [URL_Path ?good, a, title]"
    "makeHandler (viewHandler builtin_templates) ?good empty_disk
       = viewHandler builtin_templates ?good title empty_disk"
    by blast
  then have 2: "makeHandler (viewHandler builtin_templates) ?good empty_disk
       = viewHandler builtin_templates ?good ''TestPage'' empty_disk"
    by (simp add: FindStringSubmatch_examples(5))
  show ?thesis using bad good 1 2 by simp
qed

section \<open>Properties of the handlers\<close>

text \<open>
  Claim C3. The save handler builds the page of the title and the form value \<open>body\<close>
  and saves it. When the save fails, the response is \<open>500\<close> with the text of the
  error and no redirect (the store is as the failed write left it). When it succeeds,
  the response is a redirect with status \<open>302\<close> to \<open>/view/\<close> followed by the title,
  and the store holds the page.
\<close>

theorem saveHandler_outcomes:
  "(\<forall>err fs'. save \<lparr>Title = title, Body = FormValue r ''body''\<rparr> fs = (Some err, fs') \<longrightarrow>
       saveHandler r title fs = (http_Error (Error err) StatusInternalServerError, fs') \<and>
       StatusCode (fst (saveHandler r title fs)) = 500 \<and>
       Location (fst (saveHandler r title fs)) = None) \<and>
   (\<forall>fs'. save \<lparr>Title = title, Body = FormValue r ''body''\<rparr> fs = (None, fs') \<longrightarrow>
       saveHandler r title fs = (http_Redirect (''/view/'' @ title) StatusFound, fs') \<and>
       StatusCode (fst (saveHandler r title fs)) = 302 \<and>
       Location (fst (saveHandler r title fs)) = Some (''/view/'' @ title) \<and>
       loadPage title fs' = Inr \<lparr>Title = title, Body = FormValue r ''body''\<rparr>)"
proof (intro conjI allI impI)
  fix err fs'
  assume "save \<lparr>Title = title, Body = FormValue r ''body''\<rparr> fs = (Some err, fs')"
  then show e: "saveHandler r title fs = (http_Error (Error err) StatusInternalServerError, fs')"
    by (simp add: saveHandler_def)
  show "StatusCode (fst (saveHandler r title fs)) = 500"
    by (simp add: e StatusInternalServerError_def)
  show "Location (fst (saveHandler r title fs)) = None"
    by (simp add: e)
next
  fix fs'
  assume s: "save \<lparr>Title = title, Body = FormValue r ''body''\<rparr> fs = (None, fs')"
  then show e: "saveHandler r title fs = (http_Redirect (''/view/'' @ title) StatusFound, fs')"
    by (simp add: saveHandler_def)
  show "StatusCode (fst (saveHandler r title fs)) = 302"
    by (simp add: e StatusFound_def)
  show "Location (fst (saveHandler r title fs)) = Some (''/view/'' @ title)"
    by (simp add: e)
  show "loadPage title fs' = Inr \<lparr>Title = title, Body = FormValue r ''body''\<rparr>"
    using save_then_load [OF s] by simp
qed

lemma save_on_readonly_disk:
  "save \<lparr>Title = ''TestPage'', Body = FormValue save_request ''body''\<rparr> readonly_disk
     = (Some (PathError ''open'' ''TestPage.txt'' EROFS), readonly_disk)"
  by (simp add: save_def os_WriteFile_def os_OpenFile_def readonly_disk_def)

lemma save_on_empty_disk:
  "save \<lparr>Title = ''TestPage'', Body = FormValue save_request ''body''\<rparr> empty_disk
     = (None, disk_with_page)"
  by (simp add: save_def os_WriteFile_def os_OpenFile_def File_Write_def empty_disk_def
      disk_with_page_def save_request_def FormValue_def)

theorem saveHandler_outcomes_witness:
  "saveHandler save_request ''TestPage'' readonly_disk
     = (http_Error ''open TestPage.txt: read-only file system'' 500, readonly_disk) \<and>
   saveHandler save_request ''TestPage'' empty_disk
     = (http_Redirect ''/view/TestPage'' 302, disk_with_page) \<and>
   loadPage ''TestPage'' disk_with_page = Inr \<lparr>Title = ''TestPage'', Body = ''hello=world''\<rparr>"
  using saveHandler_outcomes [of "''TestPage''" save_request readonly_disk,
      THEN conjunct1, rule_format, OF save_on_readonly_disk]
    saveHandler_outcomes [of "''TestPage''" save_request empty_disk,
      THEN conjunct2, rule_format, OF save_on_empty_disk]
  by (simp add: StatusInternalServerError_def StatusFound_def save_request_def FormValue_def)








section \<open>Properties of the bootstrap\<close>



lemma makeFile_full:
  assumes "\<not> readonly fs" and "full fs" and "content \<noteq> []"
  shows "makeFile name content fs =
     fs\<lparr>files := (files fs)(name \<mapsto>
        (case files fs name of
           None \<Rightarrow> \<lparr>contents = [], mode = mode_0666\<rparr>
         | Some f \<Rightarrow> f\<lparr>contents := []\<rparr>))\<rparr>"
  using assms
  by (auto simp: makeFile_def os_Create_def os_OpenFile_def File_WriteString_def File_Write_def
      split: option.splits)

lemma makeFile_flags [simp]:
  "readonly (makeFile name content fs) = readonly fs" "full (makeFile name content fs) = full fs"
  by (auto simp: makeFile_def os_Create_def os_OpenFile_def File_WriteString_def File_Write_def
      split: option.splits)









section \<open>Properties of the templates\<close>

lemma template_source_edit: "template_source edit_template = edit_html"
  by (simp add: template_source_def edit_template_def edit_html_def)

lemma template_source_view: "template_source view_template = view_html"
  by (simp add: template_source_def view_template_def view_html_def)





lemma renderTemplate_view:
  "renderTemplate builtin_templates ''view'' p = Written (Execute view_template p)"
  by (simp add: renderTemplate_def ExecuteTemplate_def builtin_templates_def)







text \<open>
  A title the router lets through has no byte that any escaper changes, so it stands in
  the page as it is.
\<close>

lemma alnum_not_special:
  assumes "alnum c"
  shows "html_replacement c = [c]"
proof -
  from assms have "c \<notin> {CHR 0x00, CHR 0x22, CHR ''&'', CHR 0x27, CHR ''+'', CHR ''<'', CHR ''>''}"
    by (auto simp: alnum_def)
  then show ?thesis by (simp add: html_replacement_def)
qed

lemma htmlEscaper_alnum: "list_all alnum t \<Longrightarrow> htmlEscaper t = t"
  by (induction t) (simp_all add: htmlEscaper_def alnum_not_special)

lemma urlNormalizer_alnum: "list_all alnum t \<Longrightarrow> urlNormalizer t = t"
  by (induction t) simp_all

lemma escape_valid_title: "valid_title t \<Longrightarrow> escape esc t = t"
  by (cases esc) (simp_all add: valid_title_def htmlEscaper_alnum urlNormalizer_alnum
      rcdataEscaper_def attrEscaper_def)

lemma view_TestPage:
  \<open>renderTemplate builtin_templates ''view'' \<lparr>Title = ''TestPage'', Body = ''hello=world''\<rparr> =
     Written (''
'' @ [CHR 0x09] @ ''<h1>TestPage</h1>
<p>[<a href="/edit/TestPage">edit</a>]</p>
<div>hello=world</div>
'')\<close>
  by (simp add: renderTemplate_view Execute_def view_template_def htmlEscaper_def
      html_replacement_def attrEscaper_def alnum_def)

end
